theory Spec2Isabelle
  imports Main "HOL-Library.Word"
begin

unbundle bit_operations_syntax

section \<open>Package auth: the data model of \<^verbatim>\<open>auth/jwt.go\<close>\<close>

text \<open>
  Go strings and byte slices are byte sequences; \<^typ>\<open>string\<close> is a list of 8-bit
  characters. \<^verbatim>\<open>int64\<close> and \<^verbatim>\<open>time.Duration\<close> are 64-bit words read in two's
  complement by \<^const>\<open>sint\<close>. An instant of the wall clock is an integer number of
  nanoseconds since the Unix epoch. A Go function of this package returning
  \<^verbatim>\<open>(value, error)\<close> returns a pair here, so that a nil value and a nil error are both
  visible in the result.
\<close>

type_synonym int64 = "64 word"
type_synonym Duration = "64 word"
type_synonym Time = int

text \<open>The flags of \<^verbatim>\<open>jwt.ValidationError.Errors\<close> (a bit mask in the library).\<close>

datatype vflag =
    ValidationErrorMalformed
  | ValidationErrorUnverifiable
  | ValidationErrorSignatureInvalid
  | ValidationErrorExpired
  | ValidationErrorIssuedAt
  | ValidationErrorNotValidYet

text \<open>
  Every error value \<^verbatim>\<open>jwt.go\<close> can return: the three \<^verbatim>\<open>errors.New\<close> of
  \<^verbatim>\<open>NewJwtWrapper\<close>, the library's \<^verbatim>\<open>*jwt.ValidationError\<close> that
  \<^verbatim>\<open>ValidateToken\<close> passes through (its flags; the message text is not modelled), the
  two \<^verbatim>\<open>errors.New\<close> of \<^verbatim>\<open>ValidateToken\<close>, and the error of \<^verbatim>\<open>SignedString\<close>
  that \<^verbatim>\<open>GenerateToken\<close> passes through.
\<close>

datatype error =
    ErrSecretKeyMustBeSet
  | ErrIssuerMustBeSet
  | ErrExpirationHoursMustBeGreaterThan0
  | ValidationError "vflag set"
  | ErrCouldntParseClaims
  | ErrJwtIsExpired
  | ErrSignedString

record JwtWrapper =
  SecretKey :: string
  Issuer :: string
  ExpirationHours :: int64

text \<open>
  \<^verbatim>\<open>jwt.RegisteredClaims\<close>, embedded in \<^verbatim>\<open>JwtClaim\<close>. A \<^verbatim>\<open>*jwt.NumericDate\<close> is an
  optional instant. The fields carry a \<open>c\<close> where the Go name is taken by another
  record of this package (\<^verbatim>\<open>Issuer\<close>, \<^verbatim>\<open>ID\<close>).
\<close>

record RegisteredClaims =
  cIssuer :: string
  cSubject :: string
  cAudience :: "string list"
  ExpiresAt :: "Time option"
  NotBefore :: "Time option"
  IssuedAt :: "Time option"
  cID :: string

record JwtClaim =
  ID :: string
  Email :: string
  Registered :: RegisteredClaims

text \<open>
  The dynamic type of a \<^verbatim>\<open>jwt.Claims\<close> interface value, as far as the type assertion
  of \<^verbatim>\<open>ValidateToken\<close> (line 87) can tell.
\<close>

datatype Claims = JwtClaimPtr JwtClaim | OtherClaims

datatype hash_id = SHA256 | SHA384 | SHA512

text \<open>
  The signing methods the library registers, by their Go type. The three HMAC methods
  \<^verbatim>\<open>HS256\<close>, \<^verbatim>\<open>HS384\<close> and \<^verbatim>\<open>HS512\<close> are values of the one type
  \<^verbatim>\<open>*jwt.SigningMethodHMAC\<close>, with their name and hash.
\<close>

datatype SigningMethod =
    SigningMethodHMAC string hash_id
  | SigningMethodRSA string
  | SigningMethodRSAPSS string
  | SigningMethodECDSA string
  | SigningMethodEd25519
  | SigningMethodNone

record Token =
  Raw :: string
  Method :: SigningMethod
  HeaderAlg :: string
  TokenClaims :: Claims
  Signature :: string
  Valid :: bool

section \<open>What jwt.go imports\<close>

text \<open>
  \<^verbatim>\<open>jwt.go\<close> calls \<^verbatim>\<open>github.com/golang-jwt/jwt/v4\<close>, which calls \<^verbatim>\<open>encoding/json\<close>,
  \<^verbatim>\<open>encoding/base64\<close>, \<^verbatim>\<open>crypto/hmac\<close> and the SHA-2 hashes. None of their sources
  is part of the repository. The control flow of the library calls that \<^verbatim>\<open>jwt.go\<close>
  makes is modelled below, function by function. The JSON codec and the hash functions
  are taken as a parameter, the record \<open>deps\<close>, so that a theorem stated for every
  \<open>deps\<close> does not depend on how they are modelled; \<open>go_deps\<close>, further down, is the
  instance used at concrete inputs.

  \<^item> \<open>UnmarshalHeader b\<close>: \<^verbatim>\<open>json.Unmarshal(b, &token.Header)\<close>, then
    \<^verbatim>\<open>token.Header["alg"].(string)\<close>: \<open>None\<close> when unmarshalling fails,
    \<open>Some None\<close> when the header has no string under \<^verbatim>\<open>alg\<close>.
  \<^item> \<open>DecodeClaims b\<close>: \<^verbatim>\<open>json.NewDecoder(b).Decode(&claims)\<close> into a fresh
    \<^verbatim>\<open>JwtClaim\<close>; \<open>None\<close> when decoding fails.
  \<^item> \<open>MarshalHeader alg\<close>: \<^verbatim>\<open>json.Marshal\<close> of the header
    \<^verbatim>\<open>{"typ": "JWT", "alg": alg}\<close>; \<open>MarshalClaims\<close>: \<^verbatim>\<open>json.Marshal\<close> of a
    \<^verbatim>\<open>JwtClaim\<close>.
  \<^item> \<open>HashSum h m\<close>: the digest of \<open>m\<close> under hash \<open>h\<close>.
  \<^item> \<open>SignatureFirst\<close>: releases of the library up to v4.5.0 validate the claims,
    then verify the signature, and report the flags of both; later v4 releases verify the
    signature first and stop at its failure.
\<close>

record deps =
  UnmarshalHeader :: "string \<Rightarrow> string option option"
  DecodeClaims :: "string \<Rightarrow> JwtClaim option"
  MarshalHeader :: "string \<Rightarrow> string option"
  MarshalClaims :: "JwtClaim \<Rightarrow> string option"
  HashSum :: "hash_id \<Rightarrow> string \<Rightarrow> string"
  SignatureFirst :: bool

subsection \<open>strings.Split and strings.Join on the separator \<^verbatim>\<open>"."\<close>\<close>

fun Split :: "string \<Rightarrow> char \<Rightarrow> string list" where
  "Split [] sep = [[]]"
| "Split (c # cs) sep =
     (if c = sep then [] # Split cs sep
      else (case Split cs sep of [] \<Rightarrow> [[c]] | p # ps \<Rightarrow> (c # p) # ps))"

fun Join :: "string list \<Rightarrow> char \<Rightarrow> string" where
  "Join [] sep = []"
| "Join [p] sep = p"
| "Join (p # q # ps) sep = p @ sep # Join (q # ps) sep"

subsection \<open>base64.RawURLEncoding: the URL alphabet, no padding, not strict\<close>

definition encodeURL :: string where
  "encodeURL = ''ABCDEFGHIJKLMNOPQRSTUVWXYZabcdefghijklmnopqrstuvwxyz0123456789-_''"

text \<open>
  The decode map is filled from the alphabet: a character maps to its position.
\<close>

fun index_from :: "nat \<Rightarrow> 'a \<Rightarrow> 'a list \<Rightarrow> nat option" where
  "index_from i x [] = None"
| "index_from i x (y # ys) = (if x = y then Some i else index_from (i + 1) x ys)"

definition decodeMap :: "char \<Rightarrow> nat option" where
  "decodeMap c = index_from 0 c encodeURL"

definition enc6 :: "nat \<Rightarrow> char" where
  "enc6 n = encodeURL ! n"

fun EncodeToString :: "string \<Rightarrow> string" where
  "EncodeToString [] = []"
| "EncodeToString [a] =
     (let x = of_char a in [enc6 (x div 4), enc6 (x mod 4 * 16)])"
| "EncodeToString [a, b] =
     (let x = of_char a; y = of_char b
      in [enc6 (x div 4), enc6 (x mod 4 * 16 + y div 16), enc6 (y mod 16 * 4)])"
| "EncodeToString (a # b # c # rest) =
     (let x = of_char a; y = of_char b; z = of_char c
      in enc6 (x div 4) # enc6 (x mod 4 * 16 + y div 16) # enc6 (y mod 16 * 4 + z div 64)
           # enc6 (z mod 64) # EncodeToString rest)"

text \<open>
  Decoding skips \<^verbatim>\<open>\r\<close> and \<^verbatim>\<open>\n\<close>, fails on any other character outside the
  alphabet (the padding character included), fails on a final group of one character, and
  ignores the unused low bits of a final group of two or three characters.
\<close>

fun sextets :: "string \<Rightarrow> nat list option" where
  "sextets [] = Some []"
| "sextets (c # cs) =
     (if c = CHR 0x0D \<or> c = CHR 0x0A then sextets cs
      else (case decodeMap c of
              None \<Rightarrow> None
            | Some v \<Rightarrow> map_option ((#) v) (sextets cs)))"

fun decode_quanta :: "nat list \<Rightarrow> string option" where
  "decode_quanta [] = Some []"
| "decode_quanta [p] = None"
| "decode_quanta [p, q] = Some [char_of (p * 4 + q div 16)]"
| "decode_quanta [p, q, r] =
     Some [char_of (p * 4 + q div 16), char_of (q mod 16 * 16 + r div 4)]"
| "decode_quanta (p # q # r # s # rest) =
     map_option
       (\<lambda>t. char_of (p * 4 + q div 16) # char_of (q mod 16 * 16 + r div 4)
               # char_of (r mod 4 * 64 + s) # t)
       (decode_quanta rest)"

definition DecodeString :: "string \<Rightarrow> string option" where
  "DecodeString s = (case sextets s of None \<Rightarrow> None | Some vs \<Rightarrow> decode_quanta vs)"

subsection \<open>crypto/hmac\<close>

definition BlockSize :: "hash_id \<Rightarrow> nat" where
  "BlockSize h = (case h of SHA256 \<Rightarrow> 64 | SHA384 \<Rightarrow> 128 | SHA512 \<Rightarrow> 128)"

definition xor_byte :: "8 word \<Rightarrow> char \<Rightarrow> char" where
  "xor_byte k c = char_of (unat (of_nat (of_char c) XOR k))"

text \<open>
  \<^verbatim>\<open>hmac.New(h, key)\<close>, \<^verbatim>\<open>Write(m)\<close>, \<^verbatim>\<open>Sum(nil)\<close>: a key longer than the block is
  hashed first; the key is copied into a zeroed block; the inner and outer pads are that
  block xored with \<^verbatim>\<open>0x36\<close> and \<^verbatim>\<open>0x5c\<close>.
\<close>

definition hmac_key_block :: "deps \<Rightarrow> hash_id \<Rightarrow> string \<Rightarrow> string" where
  "hmac_key_block L h key =
     (let k = (if length key > BlockSize h then HashSum L h key else key)
      in k @ replicate (BlockSize h - length k) (CHR 0x00))"

definition hmac_sum :: "deps \<Rightarrow> hash_id \<Rightarrow> string \<Rightarrow> string \<Rightarrow> string" where
  "hmac_sum L h key m =
     (let block = hmac_key_block L h key;
          ipad = map (xor_byte 0x36) block;
          opad = map (xor_byte 0x5C) block
      in HashSum L h (opad @ HashSum L h (ipad @ m)))"

subsection \<open>golang-jwt/jwt/v4: segments, signing methods, signing\<close>

definition EncodeSegment :: "string \<Rightarrow> string" where
  "EncodeSegment seg = EncodeToString seg"

definition DecodeSegment :: "string \<Rightarrow> string option" where
  "DecodeSegment seg = DecodeString seg"

definition SigningMethodHS256 :: SigningMethod where
  "SigningMethodHS256 = SigningMethodHMAC ''HS256'' SHA256"

definition GetSigningMethod :: "string \<Rightarrow> SigningMethod option" where
  "GetSigningMethod alg =
     (if alg = ''HS256'' then Some (SigningMethodHMAC ''HS256'' SHA256)
      else if alg = ''HS384'' then Some (SigningMethodHMAC ''HS384'' SHA384)
      else if alg = ''HS512'' then Some (SigningMethodHMAC ''HS512'' SHA512)
      else if alg \<in> {''RS256'', ''RS384'', ''RS512''} then Some (SigningMethodRSA alg)
      else if alg \<in> {''PS256'', ''PS384'', ''PS512''} then Some (SigningMethodRSAPSS alg)
      else if alg \<in> {''ES256'', ''ES384'', ''ES512''} then Some (SigningMethodECDSA alg)
      else if alg = ''EdDSA'' then Some SigningMethodEd25519
      else if alg = ''none'' then Some SigningMethodNone
      else None)"

fun Alg :: "SigningMethod \<Rightarrow> string" where
  "Alg (SigningMethodHMAC name h) = name"
| "Alg (SigningMethodRSA name) = name"
| "Alg (SigningMethodRSAPSS name) = name"
| "Alg (SigningMethodECDSA name) = name"
| "Alg SigningMethodEd25519 = ''EdDSA''"
| "Alg SigningMethodNone = ''none''"

text \<open>
  \<^verbatim>\<open>Method.Sign(signingString, key)\<close> and \<^verbatim>\<open>Method.Verify(signingString, signature,
  key)\<close> for a key of type \<^verbatim>\<open>[]byte\<close>, the only key type \<^verbatim>\<open>jwt.go\<close> passes. Every
  method but HMAC rejects such a key. \<open>None\<close> from \<open>Sign\<close> and \<open>False\<close> from
  \<open>Verify\<close> stand for a non-nil error.
\<close>

fun Sign :: "deps \<Rightarrow> SigningMethod \<Rightarrow> string \<Rightarrow> string \<Rightarrow> string option" where
  "Sign L (SigningMethodHMAC name h) signingString key =
     Some (EncodeSegment (hmac_sum L h key signingString))"
| "Sign L m signingString key = None"

fun Verify :: "deps \<Rightarrow> SigningMethod \<Rightarrow> string \<Rightarrow> string \<Rightarrow> string \<Rightarrow> bool" where
  "Verify L (SigningMethodHMAC name h) signingString signature key =
     (case DecodeSegment signature of
        None \<Rightarrow> False
      | Some sig \<Rightarrow> sig = hmac_sum L h key signingString)"
| "Verify L m signingString signature key = False"

definition NewNumericDate :: "Time \<Rightarrow> Time" where
  "NewNumericDate t = t - t mod 1000000000"

definition NewWithClaims :: "SigningMethod \<Rightarrow> JwtClaim \<Rightarrow> Token" where
  "NewWithClaims method claims =
     \<lparr>Raw = [], Method = method, HeaderAlg = Alg method, TokenClaims = JwtClaimPtr claims,
      Signature = [], Valid = False\<rparr>"

definition SigningString :: "deps \<Rightarrow> Token \<Rightarrow> string option" where
  "SigningString L t =
     (case MarshalHeader L (HeaderAlg t) of
        None \<Rightarrow> None
      | Some hjson \<Rightarrow>
          (case TokenClaims t of
             OtherClaims \<Rightarrow> None
           | JwtClaimPtr c \<Rightarrow>
               (case MarshalClaims L c of
                  None \<Rightarrow> None
                | Some cjson \<Rightarrow>
                    Some (Join [EncodeSegment hjson, EncodeSegment cjson] (CHR ''.'')))))"

definition SignedString :: "deps \<Rightarrow> Token \<Rightarrow> string \<Rightarrow> string option" where
  "SignedString L t key =
     (case SigningString L t of
        None \<Rightarrow> None
      | Some sstr \<Rightarrow>
          (case Sign L (Method t) sstr key of
             None \<Rightarrow> None
           | Some sig \<Rightarrow> Some (Join [sstr, sig] (CHR ''.''))))"

subsection \<open>golang-jwt/jwt/v4: parsing and validation\<close>

text \<open>
  \<^verbatim>\<open>RegisteredClaims.Valid()\<close> at the instant \<open>now\<close> that the library reads: the flags
  it raises. A claim that is absent is not checked; \<^verbatim>\<open>exp\<close> must be after \<open>now\<close>,
  \<^verbatim>\<open>iat\<close> and \<^verbatim>\<open>nbf\<close> must not be.
\<close>

definition VerifyExpiresAt :: "RegisteredClaims \<Rightarrow> Time \<Rightarrow> bool" where
  "VerifyExpiresAt c now = (case ExpiresAt c of None \<Rightarrow> True | Some exp \<Rightarrow> now < exp)"

definition VerifyIssuedAt :: "RegisteredClaims \<Rightarrow> Time \<Rightarrow> bool" where
  "VerifyIssuedAt c now = (case IssuedAt c of None \<Rightarrow> True | Some iat \<Rightarrow> iat \<le> now)"

definition VerifyNotBefore :: "RegisteredClaims \<Rightarrow> Time \<Rightarrow> bool" where
  "VerifyNotBefore c now = (case NotBefore c of None \<Rightarrow> True | Some nbf \<Rightarrow> nbf \<le> now)"

definition ClaimsValid :: "RegisteredClaims \<Rightarrow> Time \<Rightarrow> vflag set" where
  "ClaimsValid c now =
     (if VerifyExpiresAt c now then {} else {ValidationErrorExpired}) \<union>
     (if VerifyIssuedAt c now then {} else {ValidationErrorIssuedAt}) \<union>
     (if VerifyNotBefore c now then {} else {ValidationErrorNotValidYet})"

text \<open>
  \<^verbatim>\<open>Parser.ParseUnverified\<close>: three segments; the header and the claims are decoded;
  the method is looked up by the header's \<^verbatim>\<open>alg\<close>. The signature segment is not
  looked at.
\<close>

definition ParseUnverified :: "deps \<Rightarrow> string \<Rightarrow> error + Token \<times> string list" where
  "ParseUnverified L tokenString =
     (case Split tokenString (CHR ''.'') of
        [p0, p1, p2] \<Rightarrow>
          (case DecodeSegment p0 of
             None \<Rightarrow> Inl (ValidationError {ValidationErrorMalformed})
           | Some headerBytes \<Rightarrow>
               (case UnmarshalHeader L headerBytes of
                  None \<Rightarrow> Inl (ValidationError {ValidationErrorMalformed})
                | Some alg \<Rightarrow>
                    (case DecodeSegment p1 of
                       None \<Rightarrow> Inl (ValidationError {ValidationErrorMalformed})
                     | Some claimBytes \<Rightarrow>
                         (case DecodeClaims L claimBytes of
                            None \<Rightarrow> Inl (ValidationError {ValidationErrorMalformed})
                          | Some claims \<Rightarrow>
                              (case alg of
                                 None \<Rightarrow> Inl (ValidationError {ValidationErrorUnverifiable})
                               | Some name \<Rightarrow>
                                   (case GetSigningMethod name of
                                      None \<Rightarrow> Inl (ValidationError {ValidationErrorUnverifiable})
                                    | Some method \<Rightarrow>
                                        Inr (\<lparr>Raw = tokenString, Method = method,
                                              HeaderAlg = name, TokenClaims = JwtClaimPtr claims,
                                              Signature = [], Valid = False\<rparr>,
                                             [p0, p1, p2])))))))
      | _ \<Rightarrow> Inl (ValidationError {ValidationErrorMalformed}))"

text \<open>
  \<^verbatim>\<open>jwt.ParseWithClaims(tokenString, &JwtClaim{}, keyFunc)\<close> with the default parser.
  A \<open>keyFunc\<close> returning \<open>None\<close> returns an error that is not a
  \<^verbatim>\<open>*ValidationError\<close>. The library returns the token next to the error; \<^verbatim>\<open>jwt.go\<close>
  drops it, and so does the model.
\<close>

definition claims_flags :: "Claims \<Rightarrow> Time \<Rightarrow> vflag set" where
  "claims_flags c now =
     (case c of JwtClaimPtr jc \<Rightarrow> ClaimsValid (Registered jc) now | OtherClaims \<Rightarrow> {})"

definition ParseWithClaims ::
  "deps \<Rightarrow> Time \<Rightarrow> string \<Rightarrow> (Token \<Rightarrow> string option) \<Rightarrow> error + Token" where
  "ParseWithClaims L now tokenString keyFunc =
     (case ParseUnverified L tokenString of
        Inl err \<Rightarrow> Inl err
      | Inr (token, parts) \<Rightarrow>
          (case keyFunc token of
             None \<Rightarrow> Inl (ValidationError {ValidationErrorUnverifiable})
           | Some key \<Rightarrow>
               (let verified =
                      Verify L (Method token) (Join (take 2 parts) (CHR ''.'')) (parts ! 2) key;
                    vErr = claims_flags (TokenClaims token) now;
                    token = token\<lparr>Signature := parts ! 2\<rparr>
                in if SignatureFirst L then
                     (if \<not> verified then Inl (ValidationError {ValidationErrorSignatureInvalid})
                      else if vErr \<noteq> {} then Inl (ValidationError vErr)
                      else Inr (token\<lparr>Valid := True\<rparr>))
                   else
                     (let vErr = (if verified then vErr
                                  else insert ValidationErrorSignatureInvalid vErr)
                      in if vErr = {} then Inr (token\<lparr>Valid := True\<rparr>)
                         else Inl (ValidationError vErr)))))"

section \<open>The functions of \<^verbatim>\<open>auth/jwt.go\<close>\<close>

subsection \<open>NewJwtWrapper (lines 30-47)\<close>

definition NewJwtWrapper :: "string \<Rightarrow> string \<Rightarrow> int64 \<Rightarrow> JwtWrapper option \<times> error option" where
  "NewJwtWrapper secretKey issuer expirationHours =
     (if secretKey = [] then (None, Some ErrSecretKeyMustBeSet)
      else if issuer = [] then (None, Some ErrIssuerMustBeSet)
      else if expirationHours = 0 then (None, Some ErrExpirationHoursMustBeGreaterThan0)
      else (Some \<lparr>SecretKey = secretKey, Issuer = issuer, ExpirationHours = expirationHours\<rparr>,
            None))"

subsection \<open>GenerateToken (lines 50-68)\<close>

text \<open>
  \<open>now\<close> is the reading of \<^verbatim>\<open>time.Now()\<close> on line 55. The product
  \<^verbatim>\<open>time.Hour * time.Duration(j.ExpirationHours)\<close> is a 64-bit product and wraps;
  \<^verbatim>\<open>Add\<close> on the wall clock does not.
\<close>

definition Hour :: Duration where
  "Hour = 3600000000000"

definition Add :: "Time \<Rightarrow> Duration \<Rightarrow> Time" where
  "Add t d = t + sint d"

definition issued_claims :: "JwtWrapper \<Rightarrow> Time \<Rightarrow> string \<Rightarrow> string \<Rightarrow> JwtClaim" where
  "issued_claims j now uuid email =
     \<lparr>ID = uuid, Email = email,
      Registered =
        \<lparr>cIssuer = Issuer j, cSubject = [], cAudience = [],
         ExpiresAt = Some (NewNumericDate (Add now (Hour * ExpirationHours j))),
         NotBefore = None, IssuedAt = None, cID = []\<rparr>\<rparr>"

definition GenerateToken ::
  "deps \<Rightarrow> JwtWrapper \<Rightarrow> Time \<Rightarrow> string \<Rightarrow> string \<Rightarrow> string \<times> error option" where
  "GenerateToken L j now uuid email =
     (let claims = issued_claims j now uuid email;
          token = NewWithClaims SigningMethodHS256 claims
      in case SignedString L token (SecretKey j) of
           None \<Rightarrow> ([], Some ErrSignedString)
         | Some signedToken \<Rightarrow> (signedToken, None))"

subsection \<open>ValidateToken (lines 71-98)\<close>

text \<open>The key function of lines 75-81: the secret for an HMAC method, an error otherwise.\<close>

definition keyFunc :: "JwtWrapper \<Rightarrow> Token \<Rightarrow> string option" where
  "keyFunc j token =
     (case Method token of
        SigningMethodHMAC name h \<Rightarrow> Some (SecretKey j)
      | _ \<Rightarrow> None)"

text \<open>
  \<open>now1\<close> is the reading of \<^verbatim>\<open>time.Now()\<close> inside the library's claims validation,
  \<open>now2\<close> the later reading on line 93.
\<close>

definition ValidateToken ::
  "deps \<Rightarrow> JwtWrapper \<Rightarrow> Time \<Rightarrow> Time \<Rightarrow> string \<Rightarrow> JwtClaim option \<times> error option" where
  "ValidateToken L j now1 now2 signedToken =
     (case ParseWithClaims L now1 signedToken (keyFunc j) of
        Inl err \<Rightarrow> (None, Some err)
      | Inr token \<Rightarrow>
          (case TokenClaims token of
             OtherClaims \<Rightarrow> (None, Some ErrCouldntParseClaims)
           | JwtClaimPtr claims \<Rightarrow>
               (case ExpiresAt (Registered claims) of
                  None \<Rightarrow> (Some claims, None)
                | Some exp \<Rightarrow>
                    if exp < now2 then (None, Some ErrJwtIsExpired)
                    else (Some claims, None))))"

text \<open>The error kinds of the spec, read off the errors the code returns.\<close>

definition ConfigError :: "error \<Rightarrow> bool" where
  "ConfigError e =
     (e = ErrSecretKeyMustBeSet \<or> e = ErrIssuerMustBeSet \<or> e = ErrExpirationHoursMustBeGreaterThan0)"

fun has_flag :: "vflag \<Rightarrow> error \<Rightarrow> bool" where
  "has_flag f (ValidationError fs) = (f \<in> fs)"
| "has_flag f e = False"

definition MalformedTokenError :: "error \<Rightarrow> bool" where
  "MalformedTokenError e = has_flag ValidationErrorMalformed e"

definition UnsupportedAlgorithmError :: "error \<Rightarrow> bool" where
  "UnsupportedAlgorithmError e = has_flag ValidationErrorUnverifiable e"

definition InvalidSignatureError :: "error \<Rightarrow> bool" where
  "InvalidSignatureError e = has_flag ValidationErrorSignatureInvalid e"

definition ExpiredTokenError :: "error \<Rightarrow> bool" where
  "ExpiredTokenError e = (has_flag ValidationErrorExpired e \<or> e = ErrJwtIsExpired)"

subsection \<open>SHA-2 (FIPS 180-4), the hash functions behind HS256, HS384 and HS512\<close>

definition be_word :: "string \<Rightarrow> 'a::len word" where
  "be_word bs = foldl (\<lambda>w c. push_bit 8 w OR of_nat (of_char c)) 0 bs"

definition be_bytes :: "nat \<Rightarrow> nat \<Rightarrow> string" where
  "be_bytes n v = map (\<lambda>i. char_of (v div 256 ^ i)) (rev [0..<n])"

function chunks :: "nat \<Rightarrow> 'a list \<Rightarrow> 'a list list" where
  "chunks n xs = (if n = 0 \<or> xs = [] then [] else take n xs # chunks n (drop n xs))"
  by pat_completeness auto
termination
  by (relation "measure (\<lambda>(n, xs). length xs)") auto

definition sha2_pad :: "nat \<Rightarrow> nat \<Rightarrow> string \<Rightarrow> string" where
  "sha2_pad blocksize lenfield m =
     m @ [char_of (128::nat)]
       @ replicate ((blocksize - (length m + 1 + lenfield) mod blocksize) mod blocksize) (char_of (0::nat))
       @ be_bytes lenfield (8 * length m)"

definition Ch :: "'a::len word \<Rightarrow> 'a word \<Rightarrow> 'a word \<Rightarrow> 'a word" where
  "Ch x y z = (x AND y) XOR (NOT x AND z)"

definition Maj :: "'a::len word \<Rightarrow> 'a word \<Rightarrow> 'a word \<Rightarrow> 'a word" where
  "Maj x y z = (x AND y) XOR (x AND z) XOR (y AND z)"

text \<open>The four mixing functions, by their rotation and shift amounts.\<close>

definition rotr :: "nat \<Rightarrow> 'a::len word \<Rightarrow> 'a word" where
  "rotr n x = drop_bit n x OR push_bit (LENGTH('a) - n) x"

definition big_sigma :: "nat \<Rightarrow> nat \<Rightarrow> nat \<Rightarrow> 'a::len word \<Rightarrow> 'a word" where
  "big_sigma a b c x = rotr a x XOR rotr b x XOR rotr c x"

definition small_sigma :: "nat \<Rightarrow> nat \<Rightarrow> nat \<Rightarrow> 'a::len word \<Rightarrow> 'a word" where
  "small_sigma a b c x = rotr a x XOR rotr b x XOR drop_bit c x"

record 'w sha2_params =
  Sigma0 :: "'w \<Rightarrow> 'w"
  Sigma1 :: "'w \<Rightarrow> 'w"
  sigma0 :: "'w \<Rightarrow> 'w"
  sigma1 :: "'w \<Rightarrow> 'w"
  K :: "'w list"
  IV :: "'w list"
  wordbytes :: nat

text \<open>
  One round on the working variables \<open>[a, b, c, d, e, f, g, h]\<close>, and the message
  schedule as a window of the last 16 words.
\<close>

definition sha2_round :: "'a::len word sha2_params \<Rightarrow> 'a word \<Rightarrow> 'a word \<Rightarrow> 'a word list \<Rightarrow> 'a word list" where
  "sha2_round P k w v =
     (let a = v ! 0; b = v ! 1; c = v ! 2; d = v ! 3; e = v ! 4; f = v ! 5; g = v ! 6; h = v ! 7;
          T1 = h + Sigma1 P e + Ch e f g + k + w;
          T2 = Sigma0 P a + Maj a b c
      in [T1 + T2, a, b, c, d + T1, e, f, g])"

definition next_w :: "'a::len word sha2_params \<Rightarrow> 'a word list \<Rightarrow> 'a word" where
  "next_w P w = sigma1 P (w ! 14) + w ! 9 + sigma0 P (w ! 1) + w ! 0"

fun sha2_rounds :: "'a::len word sha2_params \<Rightarrow> 'a word list \<Rightarrow> 'a word list \<Rightarrow> 'a word list \<Rightarrow> 'a word list" where
  "sha2_rounds P [] w v = v"
| "sha2_rounds P (k # ks) w v = sha2_rounds P ks (tl w @ [next_w P w]) (sha2_round P k (hd w) v)"

definition sha2_block :: "'a::len word sha2_params \<Rightarrow> 'a word list \<Rightarrow> string \<Rightarrow> 'a word list" where
  "sha2_block P H block =
     map2 (+) H (sha2_rounds P (K P) (map be_word (chunks (wordbytes P) block)) H)"

definition sha2 :: "'a::len word sha2_params \<Rightarrow> string \<Rightarrow> string" where
  "sha2 P m =
     concat (map (\<lambda>w. be_bytes (wordbytes P) (unat w))
       (foldl (sha2_block P) (IV P)
          (chunks (16 * wordbytes P) (sha2_pad (16 * wordbytes P) (2 * wordbytes P) m))))"

definition K256 :: "32 word list" where
  "K256 =
     [0x428A2F98, 0x71374491, 0xB5C0FBCF, 0xE9B5DBA5, 0x3956C25B, 0x59F111F1,
      0x923F82A4, 0xAB1C5ED5, 0xD807AA98, 0x12835B01, 0x243185BE, 0x550C7DC3,
      0x72BE5D74, 0x80DEB1FE, 0x9BDC06A7, 0xC19BF174, 0xE49B69C1, 0xEFBE4786,
      0x0FC19DC6, 0x240CA1CC, 0x2DE92C6F, 0x4A7484AA, 0x5CB0A9DC, 0x76F988DA,
      0x983E5152, 0xA831C66D, 0xB00327C8, 0xBF597FC7, 0xC6E00BF3, 0xD5A79147,
      0x06CA6351, 0x14292967, 0x27B70A85, 0x2E1B2138, 0x4D2C6DFC, 0x53380D13,
      0x650A7354, 0x766A0ABB, 0x81C2C92E, 0x92722C85, 0xA2BFE8A1, 0xA81A664B,
      0xC24B8B70, 0xC76C51A3, 0xD192E819, 0xD6990624, 0xF40E3585, 0x106AA070,
      0x19A4C116, 0x1E376C08, 0x2748774C, 0x34B0BCB5, 0x391C0CB3, 0x4ED8AA4A,
      0x5B9CCA4F, 0x682E6FF3, 0x748F82EE, 0x78A5636F, 0x84C87814, 0x8CC70208,
      0x90BEFFFA, 0xA4506CEB, 0xBEF9A3F7, 0xC67178F2]"

definition K512 :: "64 word list" where
  "K512 =
     [0x428A2F98D728AE22, 0x7137449123EF65CD, 0xB5C0FBCFEC4D3B2F, 0xE9B5DBA58189DBBC,
      0x3956C25BF348B538, 0x59F111F1B605D019, 0x923F82A4AF194F9B, 0xAB1C5ED5DA6D8118,
      0xD807AA98A3030242, 0x12835B0145706FBE, 0x243185BE4EE4B28C, 0x550C7DC3D5FFB4E2,
      0x72BE5D74F27B896F, 0x80DEB1FE3B1696B1, 0x9BDC06A725C71235, 0xC19BF174CF692694,
      0xE49B69C19EF14AD2, 0xEFBE4786384F25E3, 0x0FC19DC68B8CD5B5, 0x240CA1CC77AC9C65,
      0x2DE92C6F592B0275, 0x4A7484AA6EA6E483, 0x5CB0A9DCBD41FBD4, 0x76F988DA831153B5,
      0x983E5152EE66DFAB, 0xA831C66D2DB43210, 0xB00327C898FB213F, 0xBF597FC7BEEF0EE4,
      0xC6E00BF33DA88FC2, 0xD5A79147930AA725, 0x06CA6351E003826F, 0x142929670A0E6E70,
      0x27B70A8546D22FFC, 0x2E1B21385C26C926, 0x4D2C6DFC5AC42AED, 0x53380D139D95B3DF,
      0x650A73548BAF63DE, 0x766A0ABB3C77B2A8, 0x81C2C92E47EDAEE6, 0x92722C851482353B,
      0xA2BFE8A14CF10364, 0xA81A664BBC423001, 0xC24B8B70D0F89791, 0xC76C51A30654BE30,
      0xD192E819D6EF5218, 0xD69906245565A910, 0xF40E35855771202A, 0x106AA07032BBD1B8,
      0x19A4C116B8D2D0C8, 0x1E376C085141AB53, 0x2748774CDF8EEB99, 0x34B0BCB5E19B48A8,
      0x391C0CB3C5C95A63, 0x4ED8AA4AE3418ACB, 0x5B9CCA4F7763E373, 0x682E6FF3D6B2B8A3,
      0x748F82EE5DEFB2FC, 0x78A5636F43172F60, 0x84C87814A1F0AB72, 0x8CC702081A6439EC,
      0x90BEFFFA23631E28, 0xA4506CEBDE82BDE9, 0xBEF9A3F7B2C67915, 0xC67178F2E372532B,
      0xCA273ECEEA26619C, 0xD186B8C721C0C207, 0xEADA7DD6CDE0EB1E, 0xF57D4F7FEE6ED178,
      0x06F067AA72176FBA, 0x0A637DC5A2C898A6, 0x113F9804BEF90DAE, 0x1B710B35131C471B,
      0x28DB77F523047D84, 0x32CAAB7B40C72493, 0x3C9EBE0A15C9BEBC, 0x431D67C49C100D4C,
      0x4CC5D4BECB3E42B6, 0x597F299CFC657E2A, 0x5FCB6FAB3AD6FAEC, 0x6C44198C4A475817]"

definition sha256_params :: "32 word sha2_params" where
  "sha256_params =
     \<lparr>Sigma0 = big_sigma 2 13 22, Sigma1 = big_sigma 6 11 25,
      sigma0 = small_sigma 7 18 3, sigma1 = small_sigma 17 19 10,
      K = K256,
      IV =
     [0x6A09E667, 0xBB67AE85, 0x3C6EF372, 0xA54FF53A,
      0x510E527F, 0x9B05688C, 0x1F83D9AB, 0x5BE0CD19],
      wordbytes = 4\<rparr>"

definition sha512_params :: "64 word sha2_params" where
  "sha512_params =
     \<lparr>Sigma0 = big_sigma 28 34 39, Sigma1 = big_sigma 14 18 41,
      sigma0 = small_sigma 1 8 7, sigma1 = small_sigma 19 61 6,
      K = K512,
      IV =
     [0x6A09E667F3BCC908, 0xBB67AE8584CAA73B, 0x3C6EF372FE94F82B, 0xA54FF53A5F1D36F1,
      0x510E527FADE682D1, 0x9B05688C2B3E6C1F, 0x1F83D9ABFB41BD6B, 0x5BE0CD19137E2179],
      wordbytes = 8\<rparr>"

definition sha384_params :: "64 word sha2_params" where
  "sha384_params =
     sha512_params\<lparr>IV :=
     [0xCBBB9D5DC1059ED8, 0x629A292A367CD507, 0x9159015A3070DD17, 0x152FECD8F70E5939,
      0x67332667FFC00B31, 0x8EB44A8768581511, 0xDB0C2E0D64F98FA7, 0x47B5481DBEFA4FA4]\<rparr>"

definition sha256 :: "string \<Rightarrow> string" where
  "sha256 m = sha2 sha256_params m"

definition sha512 :: "string \<Rightarrow> string" where
  "sha512 m = sha2 sha512_params m"

definition sha384 :: "string \<Rightarrow> string" where
  "sha384 m = take 48 (sha2 sha384_params m)"

section \<open>The instance \<open>go_deps\<close>\<close>

text \<open>
  The hash functions are SHA-256, SHA-384 and SHA-512. The JSON codec writes what
  \<^verbatim>\<open>json.Marshal\<close> writes for the header and for a \<^verbatim>\<open>JwtClaim\<close>, and reads back
  those texts: an object whose members are string literals, integer literals or arrays
  of string literals, with white space between tokens, members in any order and
  repeated members (the last one counts). It is a restriction of \<^verbatim>\<open>encoding/json\<close>:
  where it decodes a text, \<^verbatim>\<open>encoding/json\<close> decodes it to the same value; it
  rejects the other texts (fractions, exponents, nesting, \<^verbatim>\<open>true\<close>, \<^verbatim>\<open>false\<close>,
  \<^verbatim>\<open>null\<close>), some of which \<^verbatim>\<open>encoding/json\<close> accepts.
\<close>

subsection \<open>UTF-8 (package unicode/utf8)\<close>

definition in_range :: "nat \<Rightarrow> nat \<Rightarrow> char \<Rightarrow> bool" where
  "in_range lo hi c = (lo \<le> of_char c \<and> of_char c \<le> hi)"

text \<open>
  The length of the well-formed multi-byte encoding at the head of the string, 0 when
  there is none: \<^verbatim>\<open>utf8.DecodeRuneInString\<close> then returns \<^verbatim>\<open>(RuneError, 1)\<close>.
\<close>

fun utf8_size :: "string \<Rightarrow> nat" where
  "utf8_size (a # b # rest) =
     (if in_range 0xC2 0xDF a then (if in_range 0x80 0xBF b then 2 else 0)
      else if in_range 0xE0 0xEF a then
        (if in_range (if a = CHR 0xE0 then 0xA0 else 0x80) (if a = CHR 0xED then 0x9F else 0xBF) b
         then (case rest of
                 c # _ \<Rightarrow> if in_range 0x80 0xBF c then 3 else 0
               | [] \<Rightarrow> 0)
         else 0)
      else if in_range 0xF0 0xF4 a then
        (if in_range (if a = CHR 0xF0 then 0x90 else 0x80) (if a = CHR 0xF4 then 0x8F else 0xBF) b
         then (case rest of
                 c # d # _ \<Rightarrow> if in_range 0x80 0xBF c \<and> in_range 0x80 0xBF d then 4 else 0
               | _ \<Rightarrow> 0)
         else 0)
      else 0)"
| "utf8_size s = 0"

definition RuneError :: string where
  "RuneError = [CHR 0xEF, CHR 0xBF, CHR 0xBD]"

definition EncodeRune :: "nat \<Rightarrow> string" where
  "EncodeRune r =
     (if r < 0x80 then [char_of r]
      else if r < 0x800 then [char_of (0xC0 + r div 64), char_of (0x80 + r mod 64)]
      else if (0xD800 \<le> r \<and> r < 0xE000) \<or> 0x10FFFF < r then RuneError
      else if r < 0x10000 then
        [char_of (0xE0 + r div 4096), char_of (0x80 + r div 64 mod 64), char_of (0x80 + r mod 64)]
      else
        [char_of (0xF0 + r div 262144), char_of (0x80 + r div 4096 mod 64),
         char_of (0x80 + r div 64 mod 64), char_of (0x80 + r mod 64)])"

text \<open>A string is valid UTF-8 when every byte is ASCII or starts a well-formed encoding.\<close>

function ValidString :: "string \<Rightarrow> bool" where
  "ValidString [] = True"
| "ValidString (c # cs) =
     (if of_char c < (0x80::nat) then ValidString cs
      else utf8_size (c # cs) \<noteq> 0 \<and> ValidString (drop (utf8_size (c # cs) - 1) cs))"
  by pat_completeness auto
termination
  by (relation "measure length") auto

subsection \<open>encoding/json: writing\<close>

definition hex :: string where
  "hex = ''0123456789abcdef''"

text \<open>
  One ASCII byte inside a string literal, as \<^verbatim>\<open>appendString\<close> writes it with HTML
  escaping on (the default of \<^verbatim>\<open>json.Marshal\<close>).
\<close>

definition escape_ascii :: "char \<Rightarrow> string" where
  \<open>escape_ascii c =
     (if c = CHR 0x5C \<or> c = CHR 0x22 then [CHR 0x5C, c]
      else if c = CHR 0x08 then [CHR 0x5C, CHR ''b'']
      else if c = CHR 0x0C then [CHR 0x5C, CHR ''f'']
      else if c = CHR 0x0A then [CHR 0x5C, CHR ''n'']
      else if c = CHR 0x0D then [CHR 0x5C, CHR ''r'']
      else if c = CHR 0x09 then [CHR 0x5C, CHR ''t'']
      else if of_char c < (0x20::nat) \<or> c = CHR ''<'' \<or> c = CHR ''>'' \<or> c = CHR ''&'' then
        [CHR 0x5C, CHR ''u'', CHR ''0'', CHR ''0'',
         hex ! (of_char c div 16), hex ! (of_char c mod 16)]
      else [c])\<close>

text \<open>
  The bytes of a string literal between its quotes. An ill-formed byte is written as
  the escape of U+FFFD; U+2028 and U+2029 are escaped.
\<close>

function quote_bytes :: "string \<Rightarrow> string" where
  "quote_bytes [] = []"
| "quote_bytes (c # cs) =
     (if of_char c < (0x80::nat) then escape_ascii c @ quote_bytes cs
      else if utf8_size (c # cs) = 0 then
        [CHR 0x5C, CHR ''u'', CHR ''f'', CHR ''f'', CHR ''f'', CHR ''d''] @ quote_bytes cs
      else if c = CHR 0xE2 \<and> take 2 cs = [CHR 0x80, CHR 0xA8] then
        [CHR 0x5C, CHR ''u'', CHR ''2'', CHR ''0'', CHR ''2'', CHR ''8''] @ quote_bytes (drop 2 cs)
      else if c = CHR 0xE2 \<and> take 2 cs = [CHR 0x80, CHR 0xA9] then
        [CHR 0x5C, CHR ''u'', CHR ''2'', CHR ''0'', CHR ''2'', CHR ''9''] @ quote_bytes (drop 2 cs)
      else take (utf8_size (c # cs)) (c # cs) @ quote_bytes (drop (utf8_size (c # cs) - 1) cs))"
  by pat_completeness auto
termination
  by (relation "measure length") auto

definition quote :: "string \<Rightarrow> string" where
  "quote s = CHR 0x22 # quote_bytes s @ [CHR 0x22]"

function digits_of :: "nat \<Rightarrow> string" where
  "digits_of n =
     (if n < 10 then [char_of (48 + n)] else digits_of (n div 10) @ [char_of (48 + n mod 10)])"
  by pat_completeness auto
termination
  by (relation "measure id") auto

definition FormatInt :: "int \<Rightarrow> string" where
  "FormatInt i = (if i < 0 then CHR ''-'' # digits_of (nat (- i)) else digits_of (nat i))"

text \<open>\<^verbatim>\<open>NumericDate.MarshalJSON\<close> at the precision of a second: the Unix seconds.\<close>

definition marshal_date :: "Time \<Rightarrow> string" where
  "marshal_date t = FormatInt (t div 1000000000)"

fun marshal_strings :: "string list \<Rightarrow> string" where
  "marshal_strings [] = []"
| "marshal_strings [s] = quote s"
| "marshal_strings (s # t # ss) = quote s @ CHR '','' # marshal_strings (t # ss)"

text \<open>
  The members that \<^verbatim>\<open>omitempty\<close> may drop, each with its leading comma: the
  members \<^verbatim>\<open>ID\<close> and \<^verbatim>\<open>Email\<close> are always written before them.
\<close>

definition opt_string :: "string \<Rightarrow> string \<Rightarrow> string" where
  "opt_string name s = (if s = [] then [] else name @ quote s)"

definition opt_strings :: "string \<Rightarrow> string list \<Rightarrow> string" where
  \<open>opt_strings name ss = (if ss = [] then [] else name @ CHR ''['' # marshal_strings ss @ '']'')\<close>

definition opt_date :: "string \<Rightarrow> Time option \<Rightarrow> string" where
  "opt_date name d = (case d of None \<Rightarrow> [] | Some t \<Rightarrow> name @ marshal_date t)"

definition go_MarshalClaims :: "JwtClaim \<Rightarrow> string option" where
  \<open>go_MarshalClaims c =
     (let r = Registered c
      in Some (''{"ID":'' @ quote (ID c) @ '',"Email":'' @ quote (Email c)
           @ opt_string '',"iss":'' (cIssuer r)
           @ opt_string '',"sub":'' (cSubject r)
           @ opt_strings '',"aud":'' (cAudience r)
           @ opt_date '',"exp":'' (ExpiresAt r)
           @ opt_date '',"nbf":'' (NotBefore r)
           @ opt_date '',"iat":'' (IssuedAt r)
           @ opt_string '',"jti":'' (cID r)
           @ ''}''))\<close>

definition go_MarshalHeader :: "string \<Rightarrow> string option" where
  \<open>go_MarshalHeader alg = Some (''{"alg":'' @ quote alg @ '',"typ":"JWT"}'')\<close>

subsection \<open>encoding/json: reading\<close>

definition hexval :: "char \<Rightarrow> nat option" where
  "hexval c =
     (if in_range 48 57 c then Some (of_char c - 48)
      else if in_range 97 102 c then Some (of_char c - 87)
      else if in_range 65 70 c then Some (of_char c - 55)
      else None)"

text \<open>\<^verbatim>\<open>getu4\<close>: the value of \<^verbatim>\<open>\uXXXX\<close> at the head of the string.\<close>

definition getu4 :: "string \<Rightarrow> nat option" where
  "getu4 s =
     (case s of
        b # u # x1 # x2 # x3 # x4 # _ \<Rightarrow>
          if b = CHR 0x5C \<and> u = CHR ''u'' then
            (case (hexval x1, hexval x2, hexval x3, hexval x4) of
               (Some h1, Some h2, Some h3, Some h4) \<Rightarrow> Some (((h1 * 16 + h2) * 16 + h3) * 16 + h4)
             | _ \<Rightarrow> None)
          else None
      | _ \<Rightarrow> None)"

text \<open>
  The escape that starts at a backslash: its bytes and its length. A high surrogate
  followed by the escape of a low surrogate is one code point; a surrogate alone is
  U+FFFD.
\<close>

definition unescape :: "string \<Rightarrow> (string \<times> nat) option" where
  "unescape s =
     (case s of
        b # x # _ \<Rightarrow>
          if b \<noteq> CHR 0x5C then None
          else if x = CHR 0x22 \<or> x = CHR 0x5C \<or> x = CHR ''/'' then Some ([x], 2)
          else if x = CHR ''b'' then Some ([CHR 0x08], 2)
          else if x = CHR ''f'' then Some ([CHR 0x0C], 2)
          else if x = CHR ''n'' then Some ([CHR 0x0A], 2)
          else if x = CHR ''r'' then Some ([CHR 0x0D], 2)
          else if x = CHR ''t'' then Some ([CHR 0x09], 2)
          else if x = CHR ''u'' then
            (case getu4 s of
               None \<Rightarrow> None
             | Some rr \<Rightarrow>
                 if 0xD800 \<le> rr \<and> rr < 0xE000 then
                   (case getu4 (drop 6 s) of
                      None \<Rightarrow> Some (RuneError, 6)
                    | Some rr1 \<Rightarrow>
                        if rr < 0xDC00 \<and> 0xDC00 \<le> rr1 \<and> rr1 < 0xE000 then
                          Some (EncodeRune ((rr - 0xD800) * 1024 + (rr1 - 0xDC00) + 0x10000), 12)
                        else Some (RuneError, 6))
                 else Some (EncodeRune rr, 6))
          else None
      | _ \<Rightarrow> None)"

text \<open>
  \<^verbatim>\<open>unquote\<close>, from the byte after the opening quote: the string's bytes and what
  follows the closing quote. A control character or the end of the input inside the
  literal is a syntax error; an ill-formed byte becomes U+FFFD.
\<close>

function unquote :: "string \<Rightarrow> (string \<times> string) option" where
  "unquote [] = None"
| "unquote (c # cs) =
     (if c = CHR 0x22 then Some ([], cs)
      else if c = CHR 0x5C then
        (case unescape (c # cs) of
           None \<Rightarrow> None
         | Some (bytes, k) \<Rightarrow>
             map_option (\<lambda>(t, rest). (bytes @ t, rest)) (unquote (drop (k - 1) cs)))
      else if of_char c < (0x20::nat) then None
      else if of_char c < (0x80::nat) then map_option (\<lambda>(t, rest). (c # t, rest)) (unquote cs)
      else if utf8_size (c # cs) = 0 then
        map_option (\<lambda>(t, rest). (RuneError @ t, rest)) (unquote cs)
      else
        map_option (\<lambda>(t, rest). (take (utf8_size (c # cs)) (c # cs) @ t, rest))
          (unquote (drop (utf8_size (c # cs) - 1) cs)))"
  by pat_completeness auto
termination
  by (relation "measure length") auto

definition is_ws :: "char \<Rightarrow> bool" where
  "is_ws c = (c = CHR '' '' \<or> c = CHR 0x09 \<or> c = CHR 0x0D \<or> c = CHR 0x0A)"

definition skip_ws :: "string \<Rightarrow> string" where
  "skip_ws s = dropWhile is_ws s"

definition is_digit :: "char \<Rightarrow> bool" where
  "is_digit c = in_range 48 57 c"

definition nat_of_digits :: "string \<Rightarrow> nat" where
  "nat_of_digits ds = foldl (\<lambda>a c. 10 * a + (of_char c - 48)) 0 ds"

text \<open>
  An integer literal: digits with no leading zero, not followed by a fraction or an
  exponent (those are outside the texts read here).
\<close>

definition parse_nat :: "string \<Rightarrow> (nat \<times> string) option" where
  "parse_nat s =
     (let ds = takeWhile is_digit s; rest = dropWhile is_digit s
      in if ds = [] \<or> (hd ds = CHR ''0'' \<and> length ds > 1) then None
         else if rest \<noteq> [] \<and> hd rest \<in> {CHR ''.'', CHR ''e'', CHR ''E''} then None
         else Some (nat_of_digits ds, rest))"

datatype jvalue = JString string | JNumber int | JStrings "string list"

text \<open>
  The elements of an array of strings after its opening bracket, then a value. A loop
  of the scanner always advances; the recursion stops where it would not.
\<close>

function parse_strings :: "string \<Rightarrow> (string list \<times> string) option" where
  "parse_strings s =
     (case skip_ws s of
        q # r \<Rightarrow>
          if q \<noteq> CHR 0x22 then None
          else (case unquote r of
                  None \<Rightarrow> None
                | Some (x, r') \<Rightarrow>
                    (case skip_ws r' of
                       d # r'' \<Rightarrow>
                         if d = CHR '']'' then Some ([x], r'')
                         else if d = CHR '','' \<and> length r'' < length s then
                           map_option (\<lambda>(xs, rest). (x # xs, rest)) (parse_strings r'')
                         else None
                     | [] \<Rightarrow> None))
      | [] \<Rightarrow> None)"
  by pat_completeness auto
termination
  by (relation "measure length") auto

definition parse_value :: "string \<Rightarrow> (jvalue \<times> string) option" where
  "parse_value s =
     (case skip_ws s of
        [] \<Rightarrow> None
      | c # r \<Rightarrow>
          if c = CHR 0x22 then map_option (\<lambda>(x, rest). (JString x, rest)) (unquote r)
          else if c = CHR ''['' then
            (case skip_ws r of
               d # r' \<Rightarrow>
                 if d = CHR '']'' then Some (JStrings [], r')
                 else map_option (\<lambda>(xs, rest). (JStrings xs, rest)) (parse_strings r)
             | [] \<Rightarrow> None)
          else if c = CHR ''-'' then map_option (\<lambda>(n, rest). (JNumber (- int n), rest)) (parse_nat r)
          else map_option (\<lambda>(n, rest). (JNumber (int n), rest)) (parse_nat (c # r)))"

text \<open>The members of an object after its opening brace, in the order of the text.\<close>

function parse_members :: "string \<Rightarrow> ((string \<times> jvalue) list \<times> string) option" where
  "parse_members s =
     (case skip_ws s of
        q # r \<Rightarrow>
          if q \<noteq> CHR 0x22 then None
          else (case unquote r of
                  None \<Rightarrow> None
                | Some (k, r1) \<Rightarrow>
                    (case skip_ws r1 of
                       colon # r2 \<Rightarrow>
                         if colon \<noteq> CHR '':'' then None
                         else (case parse_value r2 of
                                 None \<Rightarrow> None
                               | Some (v, r3) \<Rightarrow>
                                   (case skip_ws r3 of
                                      d # r4 \<Rightarrow>
                                        if d = CHR ''}'' then Some ([(k, v)], r4)
                                        else if d = CHR '','' \<and> length r4 < length s then
                                          map_option (\<lambda>(kvs, rest). ((k, v) # kvs, rest))
                                            (parse_members r4)
                                        else None
                                    | [] \<Rightarrow> None))
                     | [] \<Rightarrow> None))
      | [] \<Rightarrow> None)"
  by pat_completeness auto
termination
  by (relation "measure length") auto

definition parse_object :: "string \<Rightarrow> ((string \<times> jvalue) list \<times> string) option" where
  "parse_object s =
     (case skip_ws s of
        c # r \<Rightarrow>
          if c \<noteq> CHR ''{'' then None
          else (case skip_ws r of
                  d # r' \<Rightarrow> if d = CHR ''}'' then Some ([], r') else parse_members r
                | [] \<Rightarrow> None)
      | [] \<Rightarrow> None)"

text \<open>
  \<^verbatim>\<open>json.Unmarshal\<close> into the header map: the whole input is one object; the entry
  under \<^verbatim>\<open>alg\<close> is that of its last member of this name.
\<close>

fun lookup_last :: "string \<Rightarrow> (string \<times> jvalue) list \<Rightarrow> jvalue option" where
  "lookup_last k [] = None"
| "lookup_last k ((k', v) # kvs) =
     (case lookup_last k kvs of
        Some v' \<Rightarrow> Some v'
      | None \<Rightarrow> if k = k' then Some v else None)"

definition go_UnmarshalHeader :: "string \<Rightarrow> string option option" where
  "go_UnmarshalHeader b =
     (case parse_object b of
        None \<Rightarrow> None
      | Some (kvs, rest) \<Rightarrow>
          if skip_ws rest \<noteq> [] then None
          else (case lookup_last ''alg'' kvs of
                  Some (JString a) \<Rightarrow> Some (Some a)
                | _ \<Rightarrow> Some None))"

text \<open>
  Storing one member into the claims. A number of seconds is read through a
  \<^verbatim>\<open>float64\<close>, which is exact up to \<open>2\<^sup>5\<^sup>3\<close>; larger ones are not read here.
\<close>

definition date_of :: "jvalue \<Rightarrow> Time option" where
  "date_of v =
     (case v of
        JNumber n \<Rightarrow> if \<bar>n\<bar> \<le> 2 ^ 53 then Some (n * 1000000000) else None
      | _ \<Rightarrow> None)"

definition string_of :: "jvalue \<Rightarrow> string option" where
  "string_of v = (case v of JString s \<Rightarrow> Some s | _ \<Rightarrow> None)"

definition strings_of :: "jvalue \<Rightarrow> string list option" where
  "strings_of v = (case v of JString s \<Rightarrow> Some [s] | JStrings ss \<Rightarrow> Some ss | _ \<Rightarrow> None)"

text \<open>
  The field a member's name selects: the field of exactly this name, or else the field
  of the same name under case folding (\<^verbatim>\<open>foldName\<close>; U+017F folds to \<^verbatim>\<open>S\<close> and
  U+212A to \<^verbatim>\<open>K\<close>, the only runes outside ASCII that fold into it). A member that
  selects no field is skipped.
\<close>

fun foldName :: "string \<Rightarrow> string" where
  "foldName [] = []"
| "foldName (c # cs) =
     (if in_range 97 122 c then char_of (of_char c - (32::nat)) # foldName cs
      else if c = CHR 0xC5 \<and> take 1 cs = [CHR 0xBF] then CHR ''S'' # foldName (tl cs)
      else if c = CHR 0xE2 \<and> take 2 cs = [CHR 0x84, CHR 0xAA] then CHR ''K'' # foldName (tl (tl cs))
      else c # foldName cs)"

definition field_names :: "string list" where
  "field_names = [''ID'', ''Email'', ''iss'', ''sub'', ''aud'', ''exp'', ''nbf'', ''iat'', ''jti'']"

definition field_of :: "string \<Rightarrow> string option" where
  "field_of k =
     (if k \<in> set field_names then Some k
      else find (\<lambda>f. foldName f = foldName k) field_names)"

definition store_member :: "JwtClaim \<Rightarrow> string \<times> jvalue \<Rightarrow> JwtClaim option" where
  "store_member c kv =
     (let v = snd kv; r = Registered c
      in case field_of (fst kv) of
           None \<Rightarrow> Some c
         | Some k \<Rightarrow>
             if k = ''ID'' then map_option (\<lambda>s. c\<lparr>ID := s\<rparr>) (string_of v)
             else if k = ''Email'' then map_option (\<lambda>s. c\<lparr>Email := s\<rparr>) (string_of v)
             else if k = ''iss'' then
               map_option (\<lambda>s. c\<lparr>Registered := r\<lparr>cIssuer := s\<rparr>\<rparr>) (string_of v)
             else if k = ''sub'' then
               map_option (\<lambda>s. c\<lparr>Registered := r\<lparr>cSubject := s\<rparr>\<rparr>) (string_of v)
             else if k = ''aud'' then
               map_option (\<lambda>ss. c\<lparr>Registered := r\<lparr>cAudience := ss\<rparr>\<rparr>) (strings_of v)
             else if k = ''exp'' then
               map_option (\<lambda>t. c\<lparr>Registered := r\<lparr>ExpiresAt := Some t\<rparr>\<rparr>) (date_of v)
             else if k = ''nbf'' then
               map_option (\<lambda>t. c\<lparr>Registered := r\<lparr>NotBefore := Some t\<rparr>\<rparr>) (date_of v)
             else if k = ''iat'' then
               map_option (\<lambda>t. c\<lparr>Registered := r\<lparr>IssuedAt := Some t\<rparr>\<rparr>) (date_of v)
             else map_option (\<lambda>s. c\<lparr>Registered := r\<lparr>cID := s\<rparr>\<rparr>) (string_of v))"

fun store_members :: "JwtClaim \<Rightarrow> (string \<times> jvalue) list \<Rightarrow> JwtClaim option" where
  "store_members c [] = Some c"
| "store_members c (kv # kvs) =
     (case store_member c kv of None \<Rightarrow> None | Some c' \<Rightarrow> store_members c' kvs)"

definition zero_claims :: JwtClaim where
  "zero_claims =
     \<lparr>ID = [], Email = [],
      Registered = \<lparr>cIssuer = [], cSubject = [], cAudience = [], ExpiresAt = None,
                    NotBefore = None, IssuedAt = None, cID = []\<rparr>\<rparr>"

text \<open>
  \<^verbatim>\<open>Decoder.Decode\<close> into \<^verbatim>\<open>&JwtClaim{}\<close>: the first value of the input is read;
  what follows it is not.
\<close>

definition go_DecodeClaims :: "string \<Rightarrow> JwtClaim option" where
  "go_DecodeClaims b =
     (case parse_object b of
        None \<Rightarrow> None
      | Some (kvs, rest) \<Rightarrow> store_members zero_claims kvs)"

definition go_Sum :: "hash_id \<Rightarrow> string \<Rightarrow> string" where
  "go_Sum h m = (case h of SHA256 \<Rightarrow> sha256 m | SHA384 \<Rightarrow> sha384 m | SHA512 \<Rightarrow> sha512 m)"

definition go_deps :: "bool \<Rightarrow> deps" where
  "go_deps sigfirst =
     \<lparr>UnmarshalHeader = go_UnmarshalHeader, DecodeClaims = go_DecodeClaims,
      MarshalHeader = go_MarshalHeader, MarshalClaims = go_MarshalClaims,
      HashSum = go_Sum, SignatureFirst = sigfirst\<rparr>"

section \<open>Notions used in the statements\<close>

text \<open>
  A token whose third segment is the HMAC, under \<open>key\<close> and the hash \<open>h\<close>, of its
  first two segments, which carry the header bytes and the claims bytes.
\<close>

definition signed_token :: "deps \<Rightarrow> hash_id \<Rightarrow> string \<Rightarrow> string \<Rightarrow> string \<Rightarrow> string" where
  "signed_token L h key headerBytes claimBytes =
     (let sstr = Join [EncodeSegment headerBytes, EncodeSegment claimBytes] (CHR ''.'')
      in Join [sstr, EncodeSegment (hmac_sum L h key sstr)] (CHR ''.''))"

text \<open>
  The JSON codec writes the header of an HS256 token and the claims \<open>c\<close>, and reads them
  back as that header and the claims \<open>c'\<close>.
\<close>

definition reads_back :: "deps \<Rightarrow> JwtClaim \<Rightarrow> JwtClaim \<Rightarrow> bool" where
  "reads_back L c c' =
     (case MarshalHeader L ''HS256'' of
        None \<Rightarrow> False
      | Some hjson \<Rightarrow>
          (case MarshalClaims L c of
             None \<Rightarrow> False
           | Some cjson \<Rightarrow>
               UnmarshalHeader L hjson = Some (Some ''HS256'') \<and> DecodeClaims L cjson = Some c'))"

text \<open>Bit \<open>b\<close> of byte \<open>i\<close> of a string, flipped.\<close>

definition flip_bit_at :: "nat \<Rightarrow> nat \<Rightarrow> string \<Rightarrow> string" where
  "flip_bit_at i b s = s[i := char_of (flip_bit b (of_char (s ! i) :: nat))]"

chapter \<open>Properties\<close>

section \<open>Splitting and joining\<close>

lemma Split_no_sep: "sep \<notin> set s \<Longrightarrow> Split s sep = [s]"
  by (induction s) auto

lemma Split_append: "sep \<notin> set a \<Longrightarrow> Split (a @ sep # b) sep = a # Split b sep"
  by (induction a) auto

lemma Split_three:
  "sep \<notin> set a \<Longrightarrow> sep \<notin> set b \<Longrightarrow> sep \<notin> set c \<Longrightarrow>
   Split (a @ sep # b @ sep # c) sep = [a, b, c]"
  by (simp add: Split_append Split_no_sep)

lemma Split_not_Nil: "Split s sep \<noteq> []"
  by (induction s) (auto split: list.splits)

section \<open>base64\<close>

lemma index_from_nth:
  "distinct xs \<Longrightarrow> n < length xs \<Longrightarrow> index_from i (xs ! n) xs = Some (i + n)"
proof (induction xs arbitrary: n i)
  case Nil
  then show ?case by simp
next
  case (Cons x xs)
  show ?case
  proof (cases n)
    case 0
    then show ?thesis by simp
  next
    case (Suc m)
    with Cons.prems have "xs ! m \<in> set xs" "x \<notin> set xs" by auto
    then have "xs ! m \<noteq> x" by auto
    with Cons Suc show ?thesis by auto
  qed
qed

lemma length_encodeURL: "length encodeURL = 64"
  by (simp add: encodeURL_def)

lemma distinct_encodeURL: "distinct encodeURL"
  by (simp add: encodeURL_def)

lemma decodeMap_enc6: "n < 64 \<Longrightarrow> decodeMap (enc6 n) = Some n"
  by (simp add: decodeMap_def enc6_def index_from_nth distinct_encodeURL length_encodeURL)

lemma enc6_in_alphabet: "n < 64 \<Longrightarrow> enc6 n \<in> set encodeURL"
  by (simp add: enc6_def length_encodeURL)

lemma enc6_plain:
  assumes "n < 64"
  shows "enc6 n \<noteq> CHR ''.''" "enc6 n \<noteq> CHR 0x0D" "enc6 n \<noteq> CHR 0x0A"
proof -
  have "CHR ''.'' \<notin> set encodeURL" "CHR 0x0D \<notin> set encodeURL" "CHR 0x0A \<notin> set encodeURL"
    by (simp_all add: encodeURL_def)
  with enc6_in_alphabet [OF assms]
  show "enc6 n \<noteq> CHR ''.''" "enc6 n \<noteq> CHR 0x0D" "enc6 n \<noteq> CHR 0x0A"
    by auto
qed

lemma sextets_enc6: "n < 64 \<Longrightarrow> sextets (enc6 n # cs) = map_option ((#) n) (sextets cs)"
  by (simp add: enc6_plain decodeMap_enc6)

lemma b64_a1: "(x::nat) < 256 \<Longrightarrow> x div 4 < 64" by simp
lemma b64_a2: "(x::nat) < 256 \<Longrightarrow> y < 256 \<Longrightarrow> x mod 4 * 16 + y div 16 < 64"
proof -
  assume "y < 256" then have "y div 16 < 16" by simp
  moreover have "x mod 4 < 4" by simp
  ultimately show ?thesis by linarith
qed
lemma b64_a3: "(y::nat) < 256 \<Longrightarrow> z < 256 \<Longrightarrow> y mod 16 * 4 + z div 64 < 64"
proof -
  assume "z < 256" then have "z div 64 < 4" by simp
  moreover have "y mod 16 < 16" by simp
  ultimately show ?thesis by linarith
qed
lemma b64_r1: "(y::nat) < 256 \<Longrightarrow> x div 4 * 4 + (x mod 4 * 16 + y div 16) div 16 = x"
proof -
  assume "y < 256" then have "y div 16 < 16" by simp
  then have "(x mod 4 * 16 + y div 16) div 16 = x mod 4" by simp
  then show ?thesis by simp
qed
lemma b64_r2: "(y::nat) < 256 \<Longrightarrow> z < 256 \<Longrightarrow> (x mod 4 * 16 + y div 16) mod 16 * 16 + (y mod 16 * 4 + z div 64) div 4 = y"
proof -
  assume "y < 256" "z < 256" then have "y div 16 < 16" "z div 64 < 4" by simp_all
  then have "(x mod 4 * 16 + y div 16) mod 16 = y div 16" "(y mod 16 * 4 + z div 64) div 4 = y mod 16" by simp_all
  then show ?thesis by simp
qed
lemma b64_r3: "(z::nat) < 256 \<Longrightarrow> (y mod 16 * 4 + z div 64) mod 4 * 64 + z mod 64 = z"
proof -
  assume "z < 256" then have "z div 64 < 4" by simp
  then have "(y mod 16 * 4 + z div 64) mod 4 = z div 64" by simp
  then show ?thesis by simp
qed
lemma b64_r4: "x div 4 * 4 + (x mod 4 * 16) div 16 = (x::nat)" by simp
lemma b64_r5: "(y::nat) < 256 \<Longrightarrow> (x mod 4 * 16 + y div 16) mod 16 * 16 + (y mod 16 * 4) div 4 = y"
proof -
  assume "y < 256" then have "y div 16 < 16" by simp
  then have "(x mod 4 * 16 + y div 16) mod 16 = y div 16" by simp
  then show ?thesis by simp
qed

lemma byte_bounds:
  "of_char a div 4 < (64::nat)"
  "of_char a mod 4 * 16 + of_char b div 16 < (64::nat)"
  "of_char a mod 16 * 4 + of_char b div 64 < (64::nat)"
  "of_char a mod 64 < (64::nat)"
  "of_char a mod 4 * 16 < (64::nat)"
  "of_char a mod 16 * 4 < (64::nat)"
  using b64_a1 [of "of_char a"] b64_a2 [of "of_char a" "of_char b"]
    b64_a3 [of "of_char a" "of_char b"] b64_a2 [of "of_char a" 0] b64_a3 [of "of_char a" 0]
  by simp_all

lemma EncodeToString_alphabet: "set (EncodeToString s) \<subseteq> set encodeURL"
  by (induction s rule: EncodeToString.induct) (simp_all add: Let_def byte_bounds enc6_in_alphabet)

lemma no_dot_EncodeToString: "CHR ''.'' \<notin> set (EncodeToString s)"
proof -
  have "CHR ''.'' \<notin> set encodeURL" by (simp add: encodeURL_def)
  with EncodeToString_alphabet show ?thesis by blast
qed

lemma decode_quanta_group:
  "decode_quanta
     (of_char a div 4 # (of_char a mod 4 * 16 + of_char b div 16)
        # (of_char b mod 16 * 4 + of_char c div 64) # of_char c mod 64 # vs) =
   map_option (\<lambda>t. a # b # c # t) (decode_quanta vs)"
proof -
  have "of_char b < (256::nat)" "of_char c < (256::nat)" by simp_all
  note r = b64_r1 [OF this(1), of "of_char a"] b64_r2 [OF this, of "of_char a"]
    b64_r3 [OF this(2), of "of_char b"]
  show ?thesis
    by (simp only: decode_quanta.simps r char_of_char)
qed

lemma decode_quanta_last:
  "decode_quanta [of_char a div 4, of_char a mod 4 * 16] = Some [a]"
  "decode_quanta [of_char a div 4, of_char a mod 4 * 16 + of_char b div 16, of_char b mod 16 * 4]
     = Some [a, b]"
proof -
  have "of_char b < (256::nat)" by simp
  note r = b64_r4 [of "of_char a"] b64_r1 [OF this, of "of_char a"] b64_r5 [OF this, of "of_char a"]
  show "decode_quanta [of_char a div 4, of_char a mod 4 * 16] = Some [a]"
    by (simp only: decode_quanta.simps r char_of_char)
  show "decode_quanta [of_char a div 4, of_char a mod 4 * 16 + of_char b div 16, of_char b mod 16 * 4]
     = Some [a, b]"
    by (simp only: decode_quanta.simps r char_of_char)
qed

lemma decode_EncodeToString:
  "\<exists>vs. sextets (EncodeToString s) = Some vs \<and> decode_quanta vs = Some s"
proof (induction s rule: EncodeToString.induct)
  case 1
  show ?case by simp
next
  case (2 a)
  have "sextets (EncodeToString [a]) = Some [of_char a div 4, of_char a mod 4 * 16]"
    by (simp add: Let_def sextets_enc6 byte_bounds del: sextets.simps(2))
  then show ?case using decode_quanta_last(1) by blast
next
  case (3 a b)
  have "sextets (EncodeToString [a, b]) =
    Some [of_char a div 4, of_char a mod 4 * 16 + of_char b div 16, of_char b mod 16 * 4]"
    by (simp add: Let_def sextets_enc6 byte_bounds del: sextets.simps(2))
  then show ?case using decode_quanta_last(2) by blast
next
  case (4 a b c rest)
  from 4 [OF refl refl refl]
  obtain vs where vs: "sextets (EncodeToString rest) = Some vs" "decode_quanta vs = Some rest"
    by auto
  have "sextets (EncodeToString (a # b # c # rest)) =
    Some (of_char a div 4 # (of_char a mod 4 * 16 + of_char b div 16)
        # (of_char b mod 16 * 4 + of_char c div 64) # of_char c mod 64 # vs)"
    by (simp add: Let_def sextets_enc6 byte_bounds vs(1) del: sextets.simps(2))
  moreover have "decode_quanta (of_char a div 4 # (of_char a mod 4 * 16 + of_char b div 16)
        # (of_char b mod 16 * 4 + of_char c div 64) # of_char c mod 64 # vs) = Some (a # b # c # rest)"
    by (simp only: decode_quanta_group vs(2) option.map)
  ultimately show ?case by blast
qed

lemma DecodeString_EncodeToString: "DecodeString (EncodeToString s) = Some s"
  using decode_EncodeToString [of s] by (auto simp: DecodeString_def)

lemma DecodeSegment_EncodeSegment: "DecodeSegment (EncodeSegment s) = Some s"
  by (simp add: DecodeSegment_def EncodeSegment_def DecodeString_EncodeToString)

lemma no_dot_EncodeSegment: "CHR ''.'' \<notin> set (EncodeSegment s)"
  by (simp add: EncodeSegment_def no_dot_EncodeToString)

section \<open>Parsing a token of three segments\<close>

lemma Join3: "Join [Join [a, b] sep, c] sep = a @ sep # b @ sep # c"
  by simp

lemma ParseWithClaims_segments:
  assumes "Split tok (CHR ''.'') = [p0, p1, p2]"
    and "DecodeSegment p0 = Some hb" and "UnmarshalHeader L hb = Some (Some alg)"
    and "DecodeSegment p1 = Some cb" and "DecodeClaims L cb = Some c"
    and "GetSigningMethod alg = Some m"
  shows "ParseUnverified L tok =
           Inr (\<lparr>Raw = tok, Method = m, HeaderAlg = alg, TokenClaims = JwtClaimPtr c,
                 Signature = [], Valid = False\<rparr>, [p0, p1, p2])"
  using assms by (simp add: ParseUnverified_def)

lemma ValidateToken_hmac:
  assumes "Split tok (CHR ''.'') = [p0, p1, p2]"
    and "DecodeSegment p0 = Some hb" and "UnmarshalHeader L hb = Some (Some alg)"
    and "DecodeSegment p1 = Some cb" and "DecodeClaims L cb = Some c"
    and "GetSigningMethod alg = Some (SigningMethodHMAC name h)"
  shows "ValidateToken L j now1 now2 tok =
     (let verified = (DecodeSegment p2 = Some (hmac_sum L h (SecretKey j) (p0 @ CHR ''.'' # p1)));
          vErr = ClaimsValid (Registered c) now1
      in if \<not> verified \<and> SignatureFirst L then
           (None, Some (ValidationError {ValidationErrorSignatureInvalid}))
         else if \<not> verified then
           (None, Some (ValidationError (insert ValidationErrorSignatureInvalid vErr)))
         else if vErr \<noteq> {} then (None, Some (ValidationError vErr))
         else (case ExpiresAt (Registered c) of
                 None \<Rightarrow> (Some c, None)
               | Some exp \<Rightarrow>
                   if exp < now2 then (None, Some ErrJwtIsExpired) else (Some c, None)))"
proof -
  have v: "Verify L (SigningMethodHMAC name h) (p0 @ CHR ''.'' # p1) p2 (SecretKey j)
    = (DecodeSegment p2 = Some (hmac_sum L h (SecretKey j) (p0 @ CHR ''.'' # p1)))"
    by (auto split: option.splits)
  show ?thesis
    unfolding ValidateToken_def ParseWithClaims_def
    by (simp add: ParseWithClaims_segments [OF assms] keyFunc_def claims_flags_def v Let_def
          del: Verify.simps)
qed

lemma GetSigningMethod_hmac:
  "GetSigningMethod a = Some (SigningMethodHMAC name h) \<Longrightarrow>
   a = ''HS256'' \<or> a = ''HS384'' \<or> a = ''HS512''"
  by (simp add: GetSigningMethod_def split: if_splits)

lemma keyFunc_not_hmac:
  "(\<And>name h. Method token \<noteq> SigningMethodHMAC name h) \<Longrightarrow> keyFunc j token = None"
  by (cases "Method token") (auto simp: keyFunc_def)

lemma ValidateToken_not_hmac:
  assumes "Split tok (CHR ''.'') = [p0, p1, p2]"
    and "DecodeSegment p0 = Some hb" and "UnmarshalHeader L hb = Some alg"
    and "DecodeSegment p1 = Some cb" and "DecodeClaims L cb = Some c"
    and "alg \<noteq> Some ''HS256''" and "alg \<noteq> Some ''HS384''" and "alg \<noteq> Some ''HS512''"
  shows "ValidateToken L j now1 now2 tok =
           (None, Some (ValidationError {ValidationErrorUnverifiable}))"
proof (cases alg)
  case None
  with assms(1-5) show ?thesis
    by (simp add: ValidateToken_def ParseWithClaims_def ParseUnverified_def)
next
  case (Some a)
  show ?thesis
  proof (cases "GetSigningMethod a")
    case None
    with assms(1-5) Some show ?thesis
      by (simp add: ValidateToken_def ParseWithClaims_def ParseUnverified_def)
  next
    case m: (Some m)
    have "m \<noteq> SigningMethodHMAC name h" for name h
      using GetSigningMethod_hmac [of a name h] m assms(6-8) Some by blast
    then have "keyFunc j \<lparr>Raw = tok, Method = m, HeaderAlg = a, TokenClaims = JwtClaimPtr c,
                 Signature = [], Valid = False\<rparr> = None"
      by (intro keyFunc_not_hmac) simp
    with ParseWithClaims_segments [OF assms(1,2) assms(3) [unfolded Some] assms(4,5) m]
    show ?thesis
      by (simp add: ValidateToken_def ParseWithClaims_def)
  qed
qed

lemma ValidateToken_Inl:
  "ParseUnverified L tok = Inl e \<Longrightarrow> ValidateToken L j now1 now2 tok = (None, Some e)"
  by (simp add: ValidateToken_def ParseWithClaims_def)

lemma ParseUnverified_segments_count:
  "length (Split tok (CHR ''.'')) \<noteq> 3 \<Longrightarrow>
   ParseUnverified L tok = Inl (ValidationError {ValidationErrorMalformed})"
proof -
  assume a: "length (Split tok (CHR ''.'')) \<noteq> 3"
  show ?thesis
  proof (cases "Split tok (CHR ''.'')")
    case Nil
    then show ?thesis by (simp add: ParseUnverified_def)
  next
    case c1: (Cons p0 r0)
    show ?thesis
    proof (cases r0)
      case Nil
      with c1 show ?thesis by (simp add: ParseUnverified_def)
    next
      case c2: (Cons p1 r1)
      show ?thesis
      proof (cases r1)
        case Nil
        with c1 c2 show ?thesis by (simp add: ParseUnverified_def)
      next
        case c3: (Cons p2 r2)
        with a c1 c2 obtain p3 r3 where "r2 = p3 # r3" by (cases r2) auto
        with c1 c2 c3 show ?thesis by (simp add: ParseUnverified_def)
      qed
    qed
  qed
qed

lemma ParseUnverified_bad_header:
  "Split tok (CHR ''.'') = [p0, p1, p2] \<Longrightarrow>
   DecodeSegment p0 = None \<or> (\<exists>hb. DecodeSegment p0 = Some hb \<and> UnmarshalHeader L hb = None) \<Longrightarrow>
   ParseUnverified L tok = Inl (ValidationError {ValidationErrorMalformed})"
  by (auto simp: ParseUnverified_def)

lemma ParseUnverified_bad_claims:
  "Split tok (CHR ''.'') = [p0, p1, p2] \<Longrightarrow>
   DecodeSegment p1 = None \<or> (\<exists>cb. DecodeSegment p1 = Some cb \<and> DecodeClaims L cb = None) \<Longrightarrow>
   ParseUnverified L tok = Inl (ValidationError {ValidationErrorMalformed})"
  by (auto simp: ParseUnverified_def split: option.splits)

lemma ValidateToken_result:
  "(\<exists>e. ValidateToken L j now1 now2 tok = (None, Some e)) \<or>
   (\<exists>c. ValidateToken L j now1 now2 tok = (Some c, None))"
  by (auto simp: ValidateToken_def split: sum.splits Claims.splits option.splits)

section \<open>Signed tokens\<close>

lemma signed_token_eq:
  "signed_token L h key hb cb =
     EncodeSegment hb @ CHR ''.'' # EncodeSegment cb @ CHR ''.'' #
       EncodeSegment (hmac_sum L h key (EncodeSegment hb @ CHR ''.'' # EncodeSegment cb))"
  by (simp add: signed_token_def)

lemma Split_signed_shape:
  "CHR ''.'' \<notin> set s \<Longrightarrow>
   Split (EncodeSegment hb @ CHR ''.'' # EncodeSegment cb @ CHR ''.'' # s) (CHR ''.'')
     = [EncodeSegment hb, EncodeSegment cb, s]"
  by (simp add: Split_three no_dot_EncodeSegment)

lemma ValidateToken_segments:
  assumes "CHR ''.'' \<notin> set s"
    and "UnmarshalHeader L hb = Some (Some alg)" and "DecodeClaims L cb = Some c"
    and "GetSigningMethod alg = Some (SigningMethodHMAC name h)"
  shows "ValidateToken L j now1 now2 (EncodeSegment hb @ CHR ''.'' # EncodeSegment cb @ CHR ''.'' # s) =
     (let verified = (DecodeSegment s = Some (hmac_sum L h (SecretKey j)
                         (EncodeSegment hb @ CHR ''.'' # EncodeSegment cb)));
          vErr = ClaimsValid (Registered c) now1
      in if \<not> verified \<and> SignatureFirst L then
           (None, Some (ValidationError {ValidationErrorSignatureInvalid}))
         else if \<not> verified then
           (None, Some (ValidationError (insert ValidationErrorSignatureInvalid vErr)))
         else if vErr \<noteq> {} then (None, Some (ValidationError vErr))
         else (case ExpiresAt (Registered c) of
                 None \<Rightarrow> (Some c, None)
               | Some exp \<Rightarrow>
                   if exp < now2 then (None, Some ErrJwtIsExpired) else (Some c, None)))"
  by (rule ValidateToken_hmac [OF Split_signed_shape [OF assms(1)] DecodeSegment_EncodeSegment
        assms(2) DecodeSegment_EncodeSegment assms(3,4)])

lemma GenerateToken_eq:
  assumes "MarshalHeader L ''HS256'' = Some hjson"
    and "MarshalClaims L (issued_claims j now uuid email) = Some cjson"
  shows "GenerateToken L j now uuid email = (signed_token L SHA256 (SecretKey j) hjson cjson, None)"
  using assms
  by (simp add: GenerateToken_def SignedString_def SigningString_def NewWithClaims_def
      SigningMethodHS256_def signed_token_def Let_def)

section \<open>Evaluation at concrete inputs\<close>

lemmas eval_char = char_of_def bit_Suc_0_iff flip_bit_eq_xor

lemma index_from_eval [simp]:
  "index_from 0 x (y # ys) = (if x = y then Some 0 else index_from (Suc 0) x ys)"
  "index_from (Suc 0) x (y # ys) = (if x = y then Some (Suc 0) else index_from 2 x ys)"
  "index_from (numeral k) x (y # ys) =
     (if x = y then Some (numeral k) else index_from (numeral (k + Num.One)) x ys)"
  by (simp_all add: numeral_2_eq_2 numeral_plus_one)

declare index_from.simps(2) [simp del]

lemmas eval_b64 = DecodeSegment_def DecodeString_def decodeMap_def encodeURL_def
  EncodeSegment_def enc6_def

lemmas eval_json = go_UnmarshalHeader_def go_DecodeClaims_def parse_object_def skip_ws_def is_ws_def
  parse_value_def parse_nat_def is_digit_def in_range_def nat_of_digits_def unescape_def getu4_def
  hexval_def store_member_def field_of_def field_names_def zero_claims_def string_of_def date_of_def
  strings_of_def go_MarshalClaims_def go_MarshalHeader_def quote_def escape_ascii_def hex_def
  opt_string_def opt_strings_def opt_date_def marshal_date_def FormatInt_def

section \<open>Construction guards\<close>

text \<open>
  C2, as stated, fails: with a non-empty secret and issuer and \<^verbatim>\<open>validityHours = -1\<close>,
  which is \<open>\<le> 0\<close>, the constructor returns a wrapper and no error.
\<close>

theorem NewJwtWrapper_negative_hours_counterexample:
  "sint (- 1 :: int64) \<le> 0 \<and>
   NewJwtWrapper ''secret'' ''issuer'' (- 1) =
     (Some \<lparr>SecretKey = ''secret'', Issuer = ''issuer'', ExpirationHours = - 1\<rparr>, None)"
  by (simp add: NewJwtWrapper_def)

text \<open>
  C2 (amended): \<^verbatim>\<open>NewJwtWrapper\<close> fails with a \<^verbatim>\<open>ConfigError\<close> if and only if the
  secret is empty, the issuer is empty, or \<^verbatim>\<open>validityHours\<close> is exactly 0; the first
  violated condition, in that order, is the one reported, each with its own error; and a
  call that does not fail returns the wrapper holding the three arguments and no error
  (negative hours included).
\<close>

theorem NewJwtWrapper_guards:
  "((\<exists>e. NewJwtWrapper s i h = (None, Some e) \<and> ConfigError e) \<longleftrightarrow> (s = [] \<or> i = [] \<or> h = 0)) \<and>
   (NewJwtWrapper s i h = (None, Some ErrSecretKeyMustBeSet) \<longleftrightarrow> s = []) \<and>
   (NewJwtWrapper s i h = (None, Some ErrIssuerMustBeSet) \<longleftrightarrow> s \<noteq> [] \<and> i = []) \<and>
   (NewJwtWrapper s i h = (None, Some ErrExpirationHoursMustBeGreaterThan0)
      \<longleftrightarrow> s \<noteq> [] \<and> i \<noteq> [] \<and> h = 0) \<and>
   (NewJwtWrapper s i h = (Some \<lparr>SecretKey = s, Issuer = i, ExpirationHours = h\<rparr>, None)
      \<longleftrightarrow> s \<noteq> [] \<and> i \<noteq> [] \<and> h \<noteq> 0)"
  by (auto simp: NewJwtWrapper_def ConfigError_def)

section \<open>Algorithm pinning\<close>

text \<open>
  C1, as stated, fails: a token whose header declares \<^verbatim>\<open>HS384\<close>, not the \<^verbatim>\<open>HS256\<close>
  that the service signs with, passes the type test of the key function. The secret is
  handed to the library: with a signature segment that is not an HMAC the failure is an
  invalid signature, not an unsupported algorithm, and with the HMAC-SHA384 of the first
  two segments under the configured secret the token is accepted.
\<close>

theorem ValidateToken_HS384_counterexample:
  \<open>ValidateToken (go_deps False) \<lparr>SecretKey = ''secret'', Issuer = ''issuer'', ExpirationHours = 1\<rparr> 0 0
      ''eyJhbGciOiJIUzM4NCIsInR5cCI6IkpXVCJ9.e30.!''
     = (None, Some (ValidationError {ValidationErrorSignatureInvalid})) \<and>
   \<not> UnsupportedAlgorithmError (ValidationError {ValidationErrorSignatureInvalid}) \<and>
   ValidateToken (go_deps False) \<lparr>SecretKey = ''secret'', Issuer = ''issuer'', ExpirationHours = 1\<rparr> 0 0
      (signed_token (go_deps False) SHA384 ''secret'' ''{"alg":"HS384","typ":"JWT"}'' ''{}'')
     = (Some zero_claims, None)\<close>
proof -
  let ?j = "\<lparr>SecretKey = ''secret'', Issuer = ''issuer'', ExpirationHours = 1\<rparr>"
  have h: \<open>UnmarshalHeader (go_deps False) ''{"alg":"HS384","typ":"JWT"}'' = Some (Some ''HS384'')\<close>
    by (simp add: go_deps_def eval_json)
  have c: \<open>DecodeClaims (go_deps False) ''{}'' = Some zero_claims\<close>
    by (simp add: go_deps_def eval_json)
  have m: "GetSigningMethod ''HS384'' = Some (SigningMethodHMAC ''HS384'' SHA384)"
    by (simp add: GetSigningMethod_def)
  have e: \<open>''eyJhbGciOiJIUzM4NCIsInR5cCI6IkpXVCJ9.e30.!''
     = EncodeSegment ''{"alg":"HS384","typ":"JWT"}'' @ CHR ''.'' # EncodeSegment ''{}'' @ CHR ''.'' # ''!''\<close>
    by (simp add: eval_b64 eval_char)
  have bad: "DecodeSegment ''!'' = None"
    by (simp add: eval_b64)
  have v: "ClaimsValid (Registered zero_claims) 0 = {}"
    by (simp add: ClaimsValid_def zero_claims_def VerifyExpiresAt_def VerifyIssuedAt_def
        VerifyNotBefore_def)
  have x: "ExpiresAt (Registered zero_claims) = None"
    by (simp add: zero_claims_def)
  have 1: \<open>ValidateToken (go_deps False) ?j 0 0 ''eyJhbGciOiJIUzM4NCIsInR5cCI6IkpXVCJ9.e30.!''
     = (None, Some (ValidationError {ValidationErrorSignatureInvalid}))\<close>
    unfolding e
    by (subst ValidateToken_segments [OF _ h c m]) (simp_all add: bad v go_deps_def)
  have 2: \<open>ValidateToken (go_deps False) ?j 0 0
      (signed_token (go_deps False) SHA384 ''secret'' ''{"alg":"HS384","typ":"JWT"}'' ''{}'')
     = (Some zero_claims, None)\<close>
    unfolding signed_token_eq
    by (subst ValidateToken_segments [OF no_dot_EncodeSegment h c m])
      (simp add: DecodeSegment_EncodeSegment v x)
  show ?thesis
    using 1 2 by (simp add: UnsupportedAlgorithmError_def)
qed

text \<open>
  C1 (amended): for every token that passes the structural parse and whose header
  declares no algorithm, or any algorithm other than \<^verbatim>\<open>HS256\<close>, \<^verbatim>\<open>HS384\<close> and
  \<^verbatim>\<open>HS512\<close> (\<^verbatim>\<open>none\<close> included), \<^verbatim>\<open>ValidateToken\<close> fails with the library's
  unverifiable-token error, the \<^verbatim>\<open>UnsupportedAlgorithmError\<close> of the spec; the secret
  is not used: the result is the same under every secret. This holds for every JSON
  codec and hash.
\<close>

theorem ValidateToken_algorithm_pinning:
  assumes "Split tok (CHR ''.'') = [p0, p1, p2]"
    and "DecodeSegment p0 = Some hb" and "UnmarshalHeader L hb = Some alg"
    and "DecodeSegment p1 = Some cb" and "DecodeClaims L cb = Some c"
    and "alg \<noteq> Some ''HS256''" and "alg \<noteq> Some ''HS384''" and "alg \<noteq> Some ''HS512''"
  shows "ValidateToken L j now1 now2 tok
           = (None, Some (ValidationError {ValidationErrorUnverifiable})) \<and>
         UnsupportedAlgorithmError (ValidationError {ValidationErrorUnverifiable}) \<and>
         ValidateToken L (j\<lparr>SecretKey := s\<rparr>) now1 now2 tok = ValidateToken L j now1 now2 tok"
  using ValidateToken_not_hmac [OF assms, of j now1 now2]
    ValidateToken_not_hmac [OF assms, of "j\<lparr>SecretKey := s\<rparr>" now1 now2]
  by (simp add: UnsupportedAlgorithmError_def)

theorem ValidateToken_algorithm_pinning_witness:
  \<open>ValidateToken (go_deps False) \<lparr>SecretKey = ''secret'', Issuer = ''issuer'', ExpirationHours = 1\<rparr> 0 0
      ''eyJhbGciOiJub25lIn0.e30.''
     = (None, Some (ValidationError {ValidationErrorUnverifiable})) \<and>
   DecodeSegment ''eyJhbGciOiJub25lIn0'' = Some ''{"alg":"none"}'' \<and>
   ValidateToken (go_deps False) \<lparr>SecretKey = ''other'', Issuer = ''issuer'', ExpirationHours = 1\<rparr> 0 0
      ''eyJhbGciOiJub25lIn0.e30.''
     = ValidateToken (go_deps False) \<lparr>SecretKey = ''secret'', Issuer = ''issuer'', ExpirationHours = 1\<rparr> 0 0
      ''eyJhbGciOiJub25lIn0.e30.''\<close>
proof -
  have s: "Split ''eyJhbGciOiJub25lIn0.e30.'' (CHR ''.'') = [''eyJhbGciOiJub25lIn0'', ''e30'', []]"
    by simp
  have d0: \<open>DecodeSegment ''eyJhbGciOiJub25lIn0'' = Some ''{"alg":"none"}''\<close>
    by (simp add: eval_b64 eval_char)
  have h: \<open>UnmarshalHeader (go_deps False) ''{"alg":"none"}'' = Some (Some ''none'')\<close>
    by (simp add: go_deps_def eval_json)
  have d1: \<open>DecodeSegment ''e30'' = Some ''{}''\<close>
    by (simp add: eval_b64 eval_char)
  have c: \<open>DecodeClaims (go_deps False) ''{}'' = Some zero_claims\<close>
    by (simp add: go_deps_def eval_json)
  have n: "Some ''none'' \<noteq> Some ''HS256''" "Some ''none'' \<noteq> Some ''HS384''"
    "Some ''none'' \<noteq> Some ''HS512''"
    by simp_all
  show ?thesis
    using ValidateToken_algorithm_pinning [OF s d0 h d1 c n,
        of "\<lparr>SecretKey = ''secret'', Issuer = ''issuer'', ExpirationHours = 1\<rparr>" 0 0 "''other''"] d0
    by simp
qed

end
